theory Spec2Isabelle
  imports Complex_Main "HOL-Library.AList" "HOL-Library.Sublist"
begin

section \<open>JavaScript values, numbers and strings\<close>

text \<open>
  Numbers are IEEE doubles in the program.  The model computes with exact reals, so
  rounding, overflow and underflow of doubles are not represented.  The one place where a
  non-finite value is produced from finite operands, a division by an array length that
  may be zero, is modelled with \<open>jsnum\<close>.

  Strings are sequences of code units below 256 (\<open>char\<close>); lower-casing and the
  white-space class \<open>\s\<close> are those of JavaScript on that range.
\<close>

datatype error = Error string | TypeError string | RangeError string

datatype jsval = JUndefined | JNull | JBool bool | JNumber real | JString string | JObject

datatype jsnum = Num real | PosInfinity | NegInfinity | NaN

text \<open>\<open>a / b\<close> for finite \<open>a\<close> and a finite, non-negative \<open>b\<close>.\<close>

definition js_div :: "real \<Rightarrow> real \<Rightarrow> jsnum" where
  "js_div a b =
     (if b \<noteq> 0 then Num (a / b)
      else if a = 0 then NaN
      else if 0 < a then PosInfinity else NegInfinity)"

text \<open>\<open>x >= t\<close> for a finite \<open>t\<close>: every comparison with \<open>NaN\<close> is false.\<close>

fun js_ge :: "jsnum \<Rightarrow> real \<Rightarrow> bool" where
  "js_ge (Num a) t = (t \<le> a)"
| "js_ge PosInfinity t = True"
| "js_ge NegInfinity t = False"
| "js_ge NaN t = False"

text \<open>\<open>a - b\<close>.\<close>

fun js_sub :: "jsnum \<Rightarrow> jsnum \<Rightarrow> jsnum" where
  "js_sub (Num a) (Num b) = Num (a - b)"
| "js_sub NaN _ = NaN"
| "js_sub _ NaN = NaN"
| "js_sub PosInfinity PosInfinity = NaN"
| "js_sub NegInfinity NegInfinity = NaN"
| "js_sub PosInfinity _ = PosInfinity"
| "js_sub NegInfinity _ = NegInfinity"
| "js_sub (Num a) PosInfinity = NegInfinity"
| "js_sub (Num a) NegInfinity = PosInfinity"

text \<open>\<open>Math.round\<close>: the nearest integer, ties towards plus infinity.\<close>

definition Math_round :: "real \<Rightarrow> real" where
  "Math_round x = of_int \<lfloor>x + 1 / 2\<rfloor>"

text \<open>\<open>Math.round(x * 1000) / 1000\<close>.\<close>

definition round3 :: "real \<Rightarrow> real" where
  "round3 x = Math_round (x * 1000) / 1000"

fun js_round3 :: "jsnum \<Rightarrow> jsnum" where
  "js_round3 (Num a) = Num (round3 a)"
| "js_round3 x = x"

text \<open>
  \<open>Array.prototype.sort(comparefn)\<close> is stable: \<open>a\<close> stays before \<open>b\<close> unless
  \<open>comparefn(a, b) > 0\<close> (a \<open>NaN\<close> result counts as \<open>0\<close>).
\<close>

fun js_pos :: "jsnum \<Rightarrow> bool" where
  "js_pos (Num a) = (0 < a)"
| "js_pos PosInfinity = True"
| "js_pos NegInfinity = False"
| "js_pos NaN = False"

fun js_insort :: "('a \<Rightarrow> 'a \<Rightarrow> jsnum) \<Rightarrow> 'a \<Rightarrow> 'a list \<Rightarrow> 'a list" where
  "js_insort comparefn x [] = [x]"
| "js_insort comparefn x (y # ys) =
     (if js_pos (comparefn x y) then y # js_insort comparefn x ys else x # y # ys)"

definition js_sort :: "('a \<Rightarrow> 'a \<Rightarrow> jsnum) \<Rightarrow> 'a list \<Rightarrow> 'a list" where
  "js_sort comparefn xs = foldr (js_insort comparefn) xs []"

definition lower_char :: "char \<Rightarrow> char" where
  "lower_char c =
     (let n = (of_char c :: nat)
      in if (65 \<le> n \<and> n \<le> 90) \<or> (192 \<le> n \<and> n \<le> 222 \<and> n \<noteq> 215)
         then char_of (n + 32) else c)"

definition toLowerCase :: "string \<Rightarrow> string" where
  "toLowerCase s = map lower_char s"

definition is_space :: "char \<Rightarrow> bool" where
  "is_space c = ((of_char c :: nat) \<in> {9, 10, 11, 12, 13, 32, 160})"

text \<open>
  \<open>s.split(/sep+/)\<close>: the pieces between maximal runs of separators; a separator at
  either end leaves an empty piece there.
\<close>

fun split_on :: "(char \<Rightarrow> bool) \<Rightarrow> string \<Rightarrow> string list" where
  "split_on sep [] = [[]]"
| "split_on sep (c # cs) =
     (if sep c then (if cs \<noteq> [] \<and> sep (hd cs) then split_on sep cs else [] # split_on sep cs)
      else (case split_on sep cs of t # ts \<Rightarrow> (c # t) # ts | [] \<Rightarrow> [[c]]))"

text \<open>\<open>s.includes(t)\<close>.\<close>

primrec str_includes :: "string \<Rightarrow> string \<Rightarrow> bool" where
  "str_includes [] t = (t = [])"
| "str_includes (c # s) t = (prefix t (c # s) \<or> str_includes s t)"

text \<open>\<open>s.substring(0, e)\<close>.\<close>

definition substring0 :: "string \<Rightarrow> nat \<Rightarrow> string" where
  "substring0 s e = take e s"

subsection \<open>Map and Set\<close>

text \<open>
  A \<open>Map\<close> keeps its entries in insertion order and \<open>set\<close> on a present key replaces
  the value in place; it is an association list whose keys are distinct.  A \<open>Set\<close> is a
  list without repetition, in insertion order.
\<close>

definition Map_inv :: "('k \<times> 'v) list \<Rightarrow> bool" where
  "Map_inv m = distinct (map fst m)"

definition Map_set :: "'k \<Rightarrow> 'v \<Rightarrow> ('k \<times> 'v) list \<Rightarrow> ('k \<times> 'v) list" where
  "Map_set k v m = AList.update k v m"

definition Map_get :: "('k \<times> 'v) list \<Rightarrow> 'k \<Rightarrow> 'v option" where
  "Map_get m k = map_of m k"

text \<open>\<open>m.get(k) || 0\<close>.\<close>

definition get_or_0 :: "('k \<times> 'v::zero) list \<Rightarrow> 'k \<Rightarrow> 'v" where
  "get_or_0 m k = (case Map_get m k of None \<Rightarrow> 0 | Some v \<Rightarrow> v)"

definition new_Map :: "('k \<times> 'v) list \<Rightarrow> ('k \<times> 'v) list" where
  "new_Map entries = fold (\<lambda>(k, v) m. Map_set k v m) entries []"

definition Set_add :: "'a \<Rightarrow> 'a list \<Rightarrow> 'a list" where
  "Set_add x s = (if x \<in> set s then s else s @ [x])"

definition new_Set :: "'a list \<Rightarrow> 'a list" where
  "new_Set xs = fold Set_add xs []"

section \<open>utils/similarity.js\<close>

text \<open>The loop of \<open>cosineSimilarity\<close> over \<open>i = 0 .. a.length - 1\<close>.\<close>

definition dot_norms :: "real list \<Rightarrow> real list \<Rightarrow> real \<times> real \<times> real" where
  "dot_norms a b =
     fold (\<lambda>i (dotProduct, normA, normB).
             (dotProduct + a ! i * b ! i, normA + a ! i * a ! i, normB + b ! i * b ! i))
          [0..<length a] (0, 0, 0)"

definition cosineSimilarity :: "real list \<Rightarrow> real list \<Rightarrow> error + real" where
  "cosineSimilarity a b =
     (if length a \<noteq> length b then Inl (Error ''Vectors must have the same length'')
      else (case dot_norms a b of (dotProduct, normA, normB) \<Rightarrow>
              let normA = sqrt normA; normB = sqrt normB
              in if normA = 0 \<or> normB = 0 then Inr 0
                 else Inr (dotProduct / (normA * normB))))"


record scored =
  index :: nat
  score :: real

definition getTopSimilar :: "real list \<Rightarrow> int \<Rightarrow> real \<Rightarrow> scored list" where
  "getTopSimilar similarities k threshold =
     (let results = js_sort (\<lambda>a b. Num (score b - score a))
            (filter (\<lambda>item. score item \<ge> threshold)
               (map (\<lambda>(i, s). \<lparr>index = i, score = s\<rparr>) (enumerate 0 similarities)))
      in if k > 0 \<and> k < int (length results) then take (nat k) results else results)"

text \<open>The entries that pass the threshold, in input order.\<close>

definition passing :: "real list \<Rightarrow> real \<Rightarrow> scored list" where
  "passing similarities threshold =
     filter (\<lambda>item. score item \<ge> threshold)
       (map (\<lambda>(i, s). \<lparr>index = i, score = s\<rparr>) (enumerate 0 similarities))"

section \<open>utils/tfidf.js\<close>

text \<open>
  The tokenizer (\<open>natural.WordTokenizer\<close>) and the stop-word list (\<open>stopword.eng\<close>) come
  from packages outside the repository; they are parameters of the model.  \<open>tokenize\<close>
  may return nothing and \<open>stopword.eng\<close> may be absent, as the guards in
  \<open>preprocessText\<close> allow.
\<close>

record nlp =
  tokenize :: "string \<Rightarrow> string list option"
  stopword_eng :: "string list option"

record TFIDFVectorizer =
  vocabulary :: "(string \<times> nat) list"
  idf :: "(string \<times> real) list"
  documents :: "jsval list"
  fitted :: bool

definition new_TFIDFVectorizer :: TFIDFVectorizer where
  "new_TFIDFVectorizer = \<lparr>vocabulary = [], idf = [], documents = [], fitted = False\<rparr>"

text \<open>The test \<open>/^[a-zA-Z]+$/\<close>.\<close>

definition is_alpha :: "char \<Rightarrow> bool" where
  "is_alpha c = (let n = (of_char c :: nat) in (97 \<le> n \<and> n \<le> 122) \<or> (65 \<le> n \<and> n \<le> 90))"

definition alphabetic :: "string \<Rightarrow> bool" where
  "alphabetic token = (token \<noteq> [] \<and> list_all is_alpha token)"

definition preprocessText :: "nlp \<Rightarrow> jsval \<Rightarrow> string list" where
  "preprocessText env text =
     (case text of
        JString s \<Rightarrow>
          if s = [] then []
          else (case tokenize env (toLowerCase s) of
                  None \<Rightarrow> []
                | Some tokens \<Rightarrow>
                    filter (\<lambda>token. alphabetic token \<and> length token > 1
                              \<and> \<not> (case stopword_eng env of None \<Rightarrow> False
                                     | Some eng \<Rightarrow> token \<in> set eng))
                           tokens)
      | _ \<Rightarrow> [])"

text \<open>
  \<open>buildVocabulary\<close> adds to the vocabulary the object already has: the index counter
  restarts at \<open>0\<close> but the map is not cleared.
\<close>

definition buildVocabulary :: "nlp \<Rightarrow> jsval list \<Rightarrow> TFIDFVectorizer \<Rightarrow> TFIDFVectorizer" where
  "buildVocabulary env docs this =
     (let vocabSet = fold (\<lambda>doc vs. fold Set_add (preprocessText env doc) vs) docs [];
          (vocab, idx) = fold (\<lambda>token (vocab, idx). (Map_set token idx vocab, idx + 1))
                              vocabSet (vocabulary this, 0 :: nat)
      in this\<lparr>vocabulary := vocab\<rparr>)"

text \<open>
  \<open>calculateTF\<close> counts, then divides every count by the number of tokens.  The second
  loop runs over the entries of the map, so without tokens nothing is divided.
\<close>

definition calculateTF :: "string list \<Rightarrow> (string \<times> real) list" where
  "calculateTF tokens =
     (let totalTokens = length tokens;
          tf = fold (\<lambda>token tf. Map_set token (get_or_0 tf token + 1) tf) tokens []
      in fold (\<lambda>(token, count) tf. Map_set token (count / real totalTokens) tf) tf tf)"

text \<open>
  The map \<open>termDocCount\<close> that \<open>calculateIDF\<close> fills first: for each document, one more
  for every distinct token of the document.
\<close>

definition termDocCount :: "nlp \<Rightarrow> jsval list \<Rightarrow> (string \<times> nat) list" where
  "termDocCount env docs =
     fold (\<lambda>doc counts.
             fold (\<lambda>token counts. Map_set token (get_or_0 counts token + 1) counts)
                  (new_Set (preprocessText env doc)) counts)
          docs []"

definition calculateIDF :: "nlp \<Rightarrow> jsval list \<Rightarrow> TFIDFVectorizer \<Rightarrow> TFIDFVectorizer" where
  "calculateIDF env docs this =
     (let docCount = length docs;
          counts = termDocCount env docs
      in this\<lparr>idf :=
           fold (\<lambda>(token, idx) idf_map.
                   let docFreq = get_or_0 counts token
                   in if docFreq > 0
                      then Map_set token (ln (real docCount / real docFreq)) idf_map
                      else Map_set token 0 idf_map)
                (vocabulary this) (idf this)\<rparr>)"

text \<open>
  Names for the two loops of \<open>buildVocabulary\<close>, the document frequency that
  \<open>calculateIDF\<close> counts, and the weight it stores.
\<close>

definition vocabSet :: "nlp \<Rightarrow> jsval list \<Rightarrow> string list" where
  "vocabSet env docs = fold (\<lambda>doc vs. fold Set_add (preprocessText env doc) vs) docs []"

definition assign_indices :: "string list \<Rightarrow> (string \<times> nat) list \<times> nat \<Rightarrow> (string \<times> nat) list \<times> nat" where
  "assign_indices tokens = fold (\<lambda>token (vocab, idx). (Map_set token idx vocab, idx + 1)) tokens"

definition df :: "nlp \<Rightarrow> jsval list \<Rightarrow> string \<Rightarrow> nat" where
  "df env docs t = length (filter (\<lambda>doc. t \<in> set (preprocessText env doc)) docs)"

definition idf_weight :: "nlp \<Rightarrow> jsval list \<Rightarrow> string \<Rightarrow> real" where
  "idf_weight env docs t =
     (if 0 < df env docs t then ln (real (length docs) / real (df env docs t)) else 0)"

definition set_weights :: "(string \<Rightarrow> real) \<Rightarrow> (string \<times> nat) list \<Rightarrow> (string \<times> real) list \<Rightarrow> (string \<times> real) list" where
  "set_weights w voc = fold (\<lambda>(token, idx) idf_map. Map_set token (w token) idf_map) voc"

text \<open>
  \<open>vector[i] = x\<close>.  Beyond the end JavaScript extends the array and leaves holes; the
  model fills them with \<open>0\<close>.  A vocabulary built by \<open>fit\<close> on a new vectorizer has all
  its indices below its size (\<open>fit_indices_below_size\<close>), so that case does not arise
  there.
\<close>

definition array_set :: "real list \<Rightarrow> nat \<Rightarrow> real \<Rightarrow> real list" where
  "array_set xs i v =
     (if i < length xs then xs[i := v] else xs @ replicate (i - length xs) 0 @ [v])"

definition documentToVector :: "nlp \<Rightarrow> TFIDFVectorizer \<Rightarrow> jsval \<Rightarrow> real list" where
  "documentToVector env this doc =
     (let tokens = preprocessText env doc;
          tf = calculateTF tokens;
          vector = replicate (length (vocabulary this)) 0
      in fold (\<lambda>(token, tfValue) vector.
                 let vocabIndex = Map_get (vocabulary this) token;
                     idfValue = get_or_0 (idf this) token
                 in (case vocabIndex of
                       None \<Rightarrow> vector
                     | Some i \<Rightarrow> array_set vector i (tfValue * idfValue)))
              tf vector)"

definition fit :: "nlp \<Rightarrow> jsval list \<Rightarrow> TFIDFVectorizer \<Rightarrow> TFIDFVectorizer" where
  "fit env docs this =
     (calculateIDF env docs (buildVocabulary env docs (this\<lparr>documents := docs\<rparr>)))\<lparr>fitted := True\<rparr>"

text \<open>
  A \<open>Matrix\<close> of the package \<open>ml-matrix\<close> is the list of its rows.  Its constructor
  rejects rows of different lengths.
\<close>

type_synonym matrix = "real list list"

definition rows :: "matrix \<Rightarrow> nat" where
  "rows M = length M"

definition columns :: "matrix \<Rightarrow> nat" where
  "columns M = (case M of [] \<Rightarrow> 0 | r # _ \<Rightarrow> length r)"

definition new_Matrix :: "real list list \<Rightarrow> error + matrix" where
  "new_Matrix arrayData =
     (if \<exists>r\<in>set arrayData. length r \<noteq> columns arrayData
      then Inl (RangeError ''Inconsistent array dimensions'')
      else Inr arrayData)"

definition getRow :: "matrix \<Rightarrow> nat \<Rightarrow> error + real list" where
  "getRow M i = (if i < rows M then Inr (M ! i) else Inl (RangeError ''Row index out of range''))"

definition transform :: "nlp \<Rightarrow> TFIDFVectorizer \<Rightarrow> jsval list \<Rightarrow> error + matrix" where
  "transform env this docs =
     (if \<not> fitted this then Inl (Error ''Vectorizer must be fitted before transform'')
      else new_Matrix (map (documentToVector env this) docs))"

record serialized =
  s_vocabulary :: "(string \<times> nat) list"
  s_idf :: "(string \<times> real) list"
  s_fitted :: bool

definition serialize :: "TFIDFVectorizer \<Rightarrow> serialized" where
  "serialize this =
     \<lparr>s_vocabulary = vocabulary this, s_idf = idf this, s_fitted = fitted this\<rparr>"

definition deserialize :: "serialized \<Rightarrow> TFIDFVectorizer" where
  "deserialize data =
     (new_TFIDFVectorizer
        \<lparr>vocabulary := new_Map (s_vocabulary data),
         idf := new_Map (s_idf data),
         fitted := s_fitted data\<rparr>)"

text \<open>
  An instance of the two outside packages for running the model: a tokenizer that splits
  at every run of characters other than letters, digits and the underscore and drops
  empty pieces, and a short stop-word list.
\<close>

definition is_word_char :: "char \<Rightarrow> bool" where
  "is_word_char c =
     (let n = (of_char c :: nat)
      in (97 \<le> n \<and> n \<le> 122) \<or> (65 \<le> n \<and> n \<le> 90) \<or> (48 \<le> n \<and> n \<le> 57) \<or> n = 95)"

definition word_tokens :: "string \<Rightarrow> string list" where
  "word_tokens s = filter (\<lambda>t. t \<noteq> []) (split_on (\<lambda>c. \<not> is_word_char c) s)"

definition sample_nlp :: nlp where
  "sample_nlp = \<lparr>tokenize = (\<lambda>s. Some (word_tokens s)),
                 stopword_eng = Some [''a'', ''an'', ''the'', ''of'', ''in'', ''is'', ''and'', ''to'']\<rparr>"

section \<open>platforms/codeforce/preprocess/tfidf.js\<close>

text \<open>\<open>xs[i] || ''\<close> on an array of strings: an index past the end reads \<open>undefined\<close>.\<close>

definition nth_or_empty :: "string list \<Rightarrow> nat \<Rightarrow> string" where
  "nth_or_empty xs i = (if i < length xs then xs ! i else [])"

definition createDocumentCorpus :: "string list \<Rightarrow> string list \<Rightarrow> string list" where
  "createDocumentCorpus names texts =
     fold (\<lambda>i docs.
             let name = nth_or_empty names i;
                 text = nth_or_empty texts i;
                 weightedName = concat (replicate 4 (name @ '' ''));
                 document = weightedName @ toLowerCase text
             in docs @ [document])
          [0..<length names] []"

section \<open>utils/similarity.js, on matrices\<close>

text \<open>
  \<open>cosineSimilarityMatrix\<close> as the platform modules call it, with the query as a one-row
  \<open>Matrix\<close>: one similarity per row of the matrix, the first failure ends the loop.
\<close>

definition cosineSimilarityMatrix :: "matrix \<Rightarrow> matrix \<Rightarrow> error + real list" where
  "cosineSimilarityMatrix tfidfMatrix queryVector =
     (case getRow queryVector 0 of
        Inl e \<Rightarrow> Inl e
      | Inr query \<Rightarrow>
          fold (\<lambda>i acc.
                  case acc of
                    Inl e \<Rightarrow> Inl e
                  | Inr similarities \<Rightarrow>
                      (case getRow tfidfMatrix i of
                         Inl e \<Rightarrow> Inl e
                       | Inr docVector \<Rightarrow>
                           (case cosineSimilarity docVector query of
                              Inl e \<Rightarrow> Inl e
                            | Inr similarity \<Rightarrow> Inr (similarities @ [similarity]))))
               [0..<rows tfidfMatrix] (Inr []))"

section \<open>platforms/codeforce/codeforce.js\<close>

text \<open>
  The module object, and what the three asynchronous reads of \<open>initialize\<close> deliver from
  the platform directory: the existence of the three files, the deserialized vectorizer
  with the matrix, and the names and URLs of the problem table.  Each may fail.
\<close>

record CodeforceModule =
  vectorizer :: "TFIDFVectorizer option"
  tfidfMatrix :: "matrix option"
  problemNames :: "string list option"
  problemUrls :: "string list option"
  initialized :: bool

record platform_files =
  checkPlatformData :: "error + (bool \<times> bool \<times> bool)"
  loadPlatformData :: "error + (TFIDFVectorizer \<times> matrix)"
  readProblemData :: "error + (string list \<times> string list)"

definition new_CodeforceModule :: CodeforceModule where
  "new_CodeforceModule =
     \<lparr>vectorizer = None, tfidfMatrix = None, problemNames = None, problemUrls = None,
      initialized = False\<rparr>"

record query_result =
  r_name :: "string option"
  r_url :: "string option"
  r_score :: jsnum
  r_index :: "nat option"

text \<open>\<open>xs[i]\<close>: \<open>undefined\<close> past the end.\<close>

definition nth_opt :: "'a list \<Rightarrow> nat \<Rightarrow> 'a option" where
  "nth_opt xs i = (if i < length xs then Some (xs ! i) else None)"

text \<open>
  \<open>initialize\<close> returns the error it throws, if any, and the object, which keeps the
  fields assigned before the throw.
\<close>

definition initialize :: "platform_files \<Rightarrow> CodeforceModule \<Rightarrow> error option \<times> CodeforceModule" where
  "initialize files this =
     (if initialized this then (None, this)
      else (case checkPlatformData files of
              Inl e \<Rightarrow> (Some e, this)
            | Inr (v, m, c) \<Rightarrow>
                if \<not> (v \<and> m \<and> c)
                then (Some (Error ''Codeforces preprocessed data not found. Please run preprocessing first.''), this)
                else (case loadPlatformData files of
                        Inl e \<Rightarrow> (Some e, this)
                      | Inr (vec, mat) \<Rightarrow>
                          let this = this\<lparr>vectorizer := Some vec, tfidfMatrix := Some mat\<rparr>
                          in (case readProblemData files of
                                Inl e \<Rightarrow> (Some e, this)
                              | Inr (names, urls) \<Rightarrow>
                                  (None, this\<lparr>problemNames := Some names,
                                              problemUrls := Some urls,
                                              initialized := True\<rparr>)))))"

text \<open>
  The body of \<open>queryTerms.forEach\<close> in \<open>fallbackSearch\<close>; \<open>score0\<close> and \<open>score1\<close> are
  the variable \<open>score\<close> before and after the first test.
\<close>

definition term_score :: "string \<Rightarrow> string \<Rightarrow> real \<Rightarrow> real" where
  "term_score problemName term score0 =
     (let score1 = (if str_includes problemName term then score0 + 0.5 else score0)
      in if str_includes problemName (substring0 term (max 3 (length term - 2)))
         then score1 + 0.2 else score1)"

text \<open>
  One round of the loop over the problems.  Reading \<open>this.problemUrls[i]\<close> throws when
  the URLs are \<open>null\<close>.
\<close>

definition fallback_step ::
  "string list \<Rightarrow> string list option \<Rightarrow> string list \<Rightarrow> real \<Rightarrow> nat
     \<Rightarrow> error + query_result list \<Rightarrow> error + query_result list" where
  "fallback_step names urls queryTerms threshold i acc =
     (case acc of
        Inl e \<Rightarrow> Inl e
      | Inr results \<Rightarrow>
          let problemName = toLowerCase (names ! i);
              score0 = fold (term_score problemName) queryTerms 0;
              normalized = js_div score0 (real (length queryTerms))
          in if js_ge normalized threshold
             then (case urls of
                     None \<Rightarrow> Inl (TypeError ''Cannot read properties of null'')
                   | Some us \<Rightarrow>
                       Inr (results @ [\<lparr>r_name = Some (names ! i), r_url = nth_opt us i,
                                         r_score = js_round3 normalized, r_index = Some i\<rparr>]))
             else Inr results)"

definition fallbackSearch :: "CodeforceModule \<Rightarrow> string \<Rightarrow> real \<Rightarrow> query_result list" where
  "fallbackSearch this queryText threshold =
     (case problemNames this of
        None \<Rightarrow> []
      | Some names \<Rightarrow>
          if names = [] then []
          else let query = toLowerCase queryText;
                   queryTerms = filter (\<lambda>term. length term > 2) (split_on is_space query)
               in (case fold (fallback_step names (problemUrls this) queryTerms threshold)
                             [0..<length names] (Inr []) of
                     Inl e \<Rightarrow> []
                   | Inr results \<Rightarrow>
                       take 50 (js_sort (\<lambda>a b. js_sub (r_score b) (r_score a)) results)))"

text \<open>The \<open>map\<close> that formats the ranked rows; its callback reads both arrays.\<close>

definition format_results :: "CodeforceModule \<Rightarrow> scored list \<Rightarrow> error + query_result list" where
  "format_results this topResults =
     (if topResults = [] then Inr []
      else (case (problemNames this, problemUrls this) of
              (Some names, Some urls) \<Rightarrow>
                Inr (map (\<lambda>result. \<lparr>r_name = nth_opt names (index result),
                                     r_url = nth_opt urls (index result),
                                     r_score = Num (round3 (score result)),
                                     r_index = None\<rparr>) topResults)
            | _ \<Rightarrow> Inl (TypeError ''Cannot read properties of null'')))"

text \<open>
  The statements of \<open>query\<close> after the lazy initialization, inside its \<open>try\<close>: the value
  returned or the error thrown.
\<close>

definition query_body :: "nlp \<Rightarrow> CodeforceModule \<Rightarrow> jsval \<Rightarrow> real \<Rightarrow> error + query_result list" where
  "query_body env this queryText threshold =
     (case queryText of
        JString q \<Rightarrow>
          if q = [] then Inr []
          else (case tfidfMatrix this of
                  None \<Rightarrow> Inl (TypeError ''Cannot read properties of null'')
                | Some M \<Rightarrow>
                    if rows M \<le> 1 \<and> columns M \<le> 1
                    then Inr (fallbackSearch this q threshold)
                    else (case vectorizer this of
                            None \<Rightarrow> Inl (TypeError ''Cannot read properties of null'')
                          | Some vec \<Rightarrow>
                              (case transform env vec [JString (toLowerCase q)] of
                                 Inl e \<Rightarrow> Inl e
                               | Inr queryVector \<Rightarrow>
                                   (case cosineSimilarityMatrix M queryVector of
                                      Inl e \<Rightarrow> Inl e
                                    | Inr similarities \<Rightarrow>
                                        format_results this
                                          (getTopSimilar similarities (- 1) threshold)))))
      | _ \<Rightarrow> Inr [])"

text \<open>
  \<open>query\<close>: the result list and the module object afterwards.  The whole body is inside
  \<open>try\<close>, and the handler returns the empty list.  A missing threshold is \<open>0.01\<close>.
\<close>

definition lazy_initialize :: "platform_files \<Rightarrow> CodeforceModule \<Rightarrow> error option \<times> CodeforceModule" where
  "lazy_initialize files this = (if \<not> initialized this then initialize files this else (None, this))"

definition default_threshold :: "real option \<Rightarrow> real" where
  "default_threshold threshold_arg = (case threshold_arg of None \<Rightarrow> 0.01 | Some t \<Rightarrow> t)"

definition query ::
  "nlp \<Rightarrow> platform_files \<Rightarrow> CodeforceModule \<Rightarrow> jsval \<Rightarrow> real option
     \<Rightarrow> query_result list \<times> CodeforceModule" where
  "query env files this queryText threshold_arg =
     (let threshold = default_threshold threshold_arg
      in (case lazy_initialize files this of
            (Some e, this') \<Rightarrow> ([], this')
          | (None, this') \<Rightarrow>
              (case query_body env this' queryText threshold of
                 Inl e \<Rightarrow> ([], this')
               | Inr results \<Rightarrow> (results, this'))))"

section \<open>The fallback search in the words of the specification\<close>









section \<open>Properties of the JavaScript primitives\<close>

lemma js_insort_key:
  "js_insort (\<lambda>a b. Num (sc b - sc a)) x ys = insort_key (\<lambda>item. - sc item) x ys"
  by (induction ys) auto

lemma js_sort_key:
  "js_sort (\<lambda>a b. Num (sc b - sc a)) xs = sort_key (\<lambda>item. - sc item) xs"
  unfolding js_sort_def by (induction xs) (simp_all add: js_insort_key)

lemma js_sort_sorted:
  "sorted_wrt (\<lambda>a b. sc b \<le> sc a) (js_sort (\<lambda>a b. Num (sc b - sc a)) xs)"
proof -
  have "sorted (map (\<lambda>item. - sc item) (js_sort (\<lambda>a b. Num (sc b - sc a)) xs))"
    unfolding js_sort_key by (rule sorted_sort_key)
  then show ?thesis
    by (simp add: sorted_map sorted_wrt_iff_nth_less)
qed

lemma set_js_sort: "set (js_sort (\<lambda>a b. Num (sc b - sc a)) xs) = set xs"
  by (simp add: js_sort_key)

lemma length_js_sort: "length (js_sort (\<lambda>a b. Num (sc b - sc a)) xs) = length xs"
  by (simp add: js_sort_key)

section \<open>Cosine similarity\<close>












section \<open>Ranking\<close>

lemma getTopSimilar_all:
  "k \<le> 0 \<Longrightarrow> getTopSimilar s k t = js_sort (\<lambda>a b. Num (score b - score a)) (passing s t)"
  by (simp add: getTopSimilar_def passing_def)

lemma getTopSimilar_take:
  "0 < k \<Longrightarrow> getTopSimilar s k t = take (nat k) (js_sort (\<lambda>a b. Num (score b - score a)) (passing s t))"
  by (simp add: getTopSimilar_def passing_def Let_def length_js_sort)

lemma set_passing:
  "set (passing s t) = {\<lparr>index = i, score = s ! i\<rparr> |i. i < length s \<and> t \<le> s ! i}"
proof -
  have "set (enumerate 0 s) = {(i, s ! i) |i. i < length s}"
    by (auto simp: in_set_enumerate_eq)
  then have "set (map (\<lambda>(i, x). \<lparr>index = i, score = x\<rparr>) (enumerate 0 s))
             = {\<lparr>index = i, score = s ! i\<rparr> |i. i < length s}"
    by (auto simp: image_iff)
  then show ?thesis unfolding passing_def set_filter by auto
qed

lemma length_passing: "length (passing s t) = length (filter (\<lambda>x. t \<le> x) s)"
proof -
  have "filter (\<lambda>item. t \<le> score item) (map (\<lambda>(i, x). \<lparr>index = i, score = x\<rparr>) ps)
        = map (\<lambda>(i, x). \<lparr>index = i, score = x\<rparr>) (filter (\<lambda>(i, x). t \<le> x) ps)" for ps :: "(nat \<times> real) list"
    by (induction ps) auto
  moreover have "length (filter (\<lambda>(i, x). t \<le> x) (enumerate n s)) = length (filter (\<lambda>x. t \<le> x) s)" for n
    by (induction s arbitrary: n) auto
  ultimately show ?thesis by (simp add: passing_def)
qed

text \<open>
  C2.  \<open>getTopSimilar\<close> returns only entries of the input whose score is at least the
  threshold, in non-increasing order of score.  For \<open>k > 0\<close> it returns at most \<open>k\<close>
  entries, namely the first \<open>k\<close> of the full ranking, and no entry left out scores
  higher than one that was returned.  For \<open>k \<le> 0\<close> it returns every entry that passes
  the threshold.
\<close>

theorem getTopSimilar_spec:
  "(\<forall>r\<in>set (getTopSimilar s k t). t \<le> score r \<and> index r < length s \<and> score r = s ! index r)
   \<and> sorted_wrt (\<lambda>a b. score b \<le> score a) (getTopSimilar s k t)
   \<and> (0 < k \<longrightarrow> length (getTopSimilar s k t) \<le> nat k
          \<and> getTopSimilar s k t = take (nat k) (getTopSimilar s 0 t)
          \<and> (\<forall>r\<in>set (getTopSimilar s k t). \<forall>r'\<in>set (getTopSimilar s 0 t) - set (getTopSimilar s k t).
                score r' \<le> score r))
   \<and> (k \<le> 0 \<longrightarrow> set (getTopSimilar s k t) = {\<lparr>index = i, score = s ! i\<rparr> |i. i < length s \<and> t \<le> s ! i}
          \<and> length (getTopSimilar s k t) = length (filter (\<lambda>x. t \<le> x) s))"
proof -
  let ?full = "js_sort (\<lambda>a b. Num (score b - score a)) (passing s t)"
  have full: "getTopSimilar s 0 t = ?full" by (simp add: getTopSimilar_all)
  have sub: "set (getTopSimilar s k t) \<subseteq> set (passing s t)"
  proof (cases "0 < k")
    case True
    then show ?thesis
      using set_take_subset[of "nat k" ?full] by (simp add: getTopSimilar_take set_js_sort)
  next
    case False
    then show ?thesis by (simp add: getTopSimilar_all set_js_sort)
  qed
  have srt_full: "sorted_wrt (\<lambda>a b. score b \<le> score a) ?full"
    by (rule js_sort_sorted)
  have c1: "\<forall>r\<in>set (getTopSimilar s k t). t \<le> score r \<and> index r < length s \<and> score r = s ! index r"
    using sub by (auto simp: set_passing)
  have c2: "sorted_wrt (\<lambda>a b. score b \<le> score a) (getTopSimilar s k t)"
  proof (cases "0 < k")
    case True
    then show ?thesis
      using srt_full by (simp add: getTopSimilar_take sorted_wrt_take)
  next
    case False
    then show ?thesis using srt_full by (simp add: getTopSimilar_all)
  qed
  have c3: "length (getTopSimilar s k t) \<le> nat k
          \<and> getTopSimilar s k t = take (nat k) (getTopSimilar s 0 t)
          \<and> (\<forall>r\<in>set (getTopSimilar s k t). \<forall>r'\<in>set (getTopSimilar s 0 t) - set (getTopSimilar s k t).
                score r' \<le> score r)" if k: "0 < k"
  proof -
    have tk: "getTopSimilar s k t = take (nat k) ?full"
      using k by (rule getTopSimilar_take)
    have "sorted_wrt (\<lambda>a b. score b \<le> score a) (take (nat k) ?full @ drop (nat k) ?full)"
      using srt_full by simp
    then have le: "\<forall>x\<in>set (take (nat k) ?full). \<forall>y\<in>set (drop (nat k) ?full). score y \<le> score x"
      unfolding sorted_wrt_append by blast
    have "set ?full - set (take (nat k) ?full) \<subseteq> set (drop (nat k) ?full)"
      using set_append[of "take (nat k) ?full" "drop (nat k) ?full"] by auto
    with le have "\<forall>r\<in>set (take (nat k) ?full). \<forall>r'\<in>set ?full - set (take (nat k) ?full). score r' \<le> score r"
      by blast
    then show ?thesis by (simp add: tk full)
  qed
  have c4: "set (getTopSimilar s k t) = {\<lparr>index = i, score = s ! i\<rparr> |i. i < length s \<and> t \<le> s ! i}
          \<and> length (getTopSimilar s k t) = length (filter (\<lambda>x. t \<le> x) s)" if "k \<le> 0"
    using that by (simp add: getTopSimilar_all set_js_sort length_js_sort set_passing length_passing)
  from c1 c2 c3 c4 show ?thesis by blast
qed

theorem getTopSimilar_spec_witness:
  "length (getTopSimilar [0.5, 0.1, 0.9, 0.5, 0.001] 2 0.01) \<le> 2
   \<and> getTopSimilar [0.5, 0.1, 0.9, 0.5, 0.001] 2 0.01 = take 2 (getTopSimilar [0.5, 0.1, 0.9, 0.5, 0.001] 0 0.01)
   \<and> length (getTopSimilar [0.5, 0.1, 0.9, 0.5, 0.001] (- 1) 0.01) = 4"
  using getTopSimilar_spec[of "[0.5, 0.1, 0.9, 0.5, 0.001]" 2 "0.01"]
        getTopSimilar_spec[of "[0.5, 0.1, 0.9, 0.5, 0.001]" "- 1" "0.01"]
  by simp

section \<open>Map and Set\<close>

lemma fold_Map_set_fresh:
  "distinct (map fst (acc @ es)) \<Longrightarrow> fold (\<lambda>(k, v) m. Map_set k v m) es acc = acc @ es"
proof (induction es arbitrary: acc)
  case Nil
  then show ?case by simp
next
  case (Cons e es)
  obtain k v where e: "e = (k, v)" by (cases e)
  from Cons.prems have "k \<notin> fst ` set acc" by (auto simp: e)
  then have upd: "Map_set k v acc = acc @ [(k, v)]"
    unfolding Map_set_def by (induction acc) auto
  from Cons.prems have "distinct (map fst ((acc @ [(k, v)]) @ es))" by (simp add: e)
  from Cons.IH[OF this] show ?case by (simp add: e upd)
qed

lemma new_Map_id: "Map_inv m \<Longrightarrow> new_Map m = m"
  unfolding new_Map_def Map_inv_def using fold_Map_set_fresh[of "[]" m] by simp

lemma Map_inv_Map_set: "Map_inv m \<Longrightarrow> Map_inv (Map_set k v m)"
  by (simp add: Map_inv_def Map_set_def distinct_update)

lemma Map_inv_new_Map_fold: "Map_inv acc \<Longrightarrow> Map_inv (fold (\<lambda>(k, v) m. Map_set k v m) es acc)"
  by (induction es arbitrary: acc) (auto simp: Map_inv_Map_set)

lemma Map_inv_new_Map: "Map_inv (new_Map es)"
  unfolding new_Map_def by (rule Map_inv_new_Map_fold) (simp add: Map_inv_def)

lemma set_fold_Set_add: "set (fold Set_add xs acc) = set acc \<union> set xs"
  by (induction xs arbitrary: acc) (auto simp: Set_add_def)

lemma distinct_fold_Set_add: "distinct acc \<Longrightarrow> distinct (fold Set_add xs acc)"
  by (induction xs arbitrary: acc) (auto simp: Set_add_def)

lemma set_new_Set: "set (new_Set xs) = set xs"
  by (simp add: new_Set_def set_fold_Set_add)

lemma distinct_new_Set: "distinct (new_Set xs)"
  by (simp add: new_Set_def distinct_fold_Set_add)

lemma get_or_0_Map_set:
  "get_or_0 (Map_set k v m) t = (if t = k then v else get_or_0 m t)"
  by (simp add: get_or_0_def Map_get_def Map_set_def update_conv')

lemma get_or_0_Nil: "get_or_0 [] t = 0"
  by (simp add: get_or_0_def Map_get_def)

lemma count_tokens:
  "distinct ts \<Longrightarrow>
   get_or_0 (fold (\<lambda>token counts. Map_set token (Suc (get_or_0 counts token)) counts) ts c) t
     = get_or_0 c t + (if t \<in> set ts then 1 else 0)"
  by (induction ts arbitrary: c) (auto simp: get_or_0_Map_set)

section \<open>The corpus builder\<close>

lemma fold_push: "fold (\<lambda>i docs. docs @ [f i]) xs acc = acc @ map f xs"
  by (induction xs arbitrary: acc) simp_all

lemma createDocumentCorpus_map:
  "createDocumentCorpus names texts =
     map (\<lambda>i. concat (replicate 4 (nth_or_empty names i @ '' '')) @ toLowerCase (nth_or_empty texts i))
         [0..<length names]"
  unfolding createDocumentCorpus_def Let_def by (simp add: fold_push)

text \<open>
  C5.  For names and texts of equal length the corpus has one document per index, and
  document \<open>i\<close> is the name at \<open>i\<close> four times, each copy followed by one space, and
  then the lower-cased text at \<open>i\<close>.
\<close>

theorem createDocumentCorpus_spec:
  assumes "length names = length texts"
  shows "length (createDocumentCorpus names texts) = length names
       \<and> (\<forall>i<length names.
            createDocumentCorpus names texts ! i =
              names ! i @ '' '' @ names ! i @ '' '' @ names ! i @ '' '' @ names ! i @ '' ''
                @ toLowerCase (texts ! i))"
  using assms
  by (simp add: createDocumentCorpus_map nth_or_empty_def numeral_eq_Suc)

theorem createDocumentCorpus_spec_witness:
  "createDocumentCorpus [''Two Sum'', ''Binary Search''] [''Array HashMap lookup'', ''Sorted array search'']
     = [''Two Sum Two Sum Two Sum Two Sum array hashmap lookup'',
        ''Binary Search Binary Search Binary Search Binary Search sorted array search'']"
proof -
  have len: "length [''Two Sum'', ''Binary Search''] = length [''Array HashMap lookup'', ''Sorted array search'']"
    by simp
  have l0: "toLowerCase ''Array HashMap lookup'' = ''array hashmap lookup''" by code_simp
  have l1: "toLowerCase ''Sorted array search'' = ''sorted array search''" by code_simp
  have "createDocumentCorpus [''Two Sum'', ''Binary Search''] [''Array HashMap lookup'', ''Sorted array search''] ! 0
          = ''Two Sum Two Sum Two Sum Two Sum array hashmap lookup''"
    using createDocumentCorpus_spec[OF len] l0 by simp
  moreover have "createDocumentCorpus [''Two Sum'', ''Binary Search''] [''Array HashMap lookup'', ''Sorted array search''] ! 1
          = ''Binary Search Binary Search Binary Search Binary Search sorted array search''"
    using createDocumentCorpus_spec[OF len] l1 by simp
  moreover have "length (createDocumentCorpus [''Two Sum'', ''Binary Search''] [''Array HashMap lookup'', ''Sorted array search'']) = 2"
    using createDocumentCorpus_spec[OF len] by simp
  ultimately show ?thesis
    by (simp add: list_eq_iff_nth_eq less_Suc_eq numeral_2_eq_2)
qed

section \<open>Fitting\<close>

lemma count_docs:
  "get_or_0 (fold (\<lambda>doc counts.
             fold (\<lambda>token counts. Map_set token (Suc (get_or_0 counts token)) counts)
                  (new_Set (preprocessText env doc)) counts) docs c) t
   = get_or_0 c t + df env docs t"
proof (induction docs arbitrary: c)
  case Nil
  show ?case by (simp add: df_def)
next
  case (Cons d docs)
  have "df env (d # docs) t = (if t \<in> set (preprocessText env d) then 1 else 0) + df env docs t"
    by (simp add: df_def)
  then show ?case
    by (simp add: Cons.IH count_tokens distinct_new_Set set_new_Set)
qed

lemma termDocCount_df: "get_or_0 (termDocCount env docs) t = df env docs t"
  unfolding termDocCount_def by (simp add: count_docs get_or_0_Nil)

lemma buildVocabulary_alt:
  "buildVocabulary env docs this =
     this\<lparr>vocabulary := fst (assign_indices (vocabSet env docs) (vocabulary this, 0))\<rparr>"
  by (simp add: buildVocabulary_def vocabSet_def assign_indices_def Let_def case_prod_unfold)

lemma set_vocabSet_fold:
  "set (fold (\<lambda>doc vs. fold Set_add (preprocessText env doc) vs) docs acc)
     = set acc \<union> (\<Union>doc\<in>set docs. set (preprocessText env doc))"
  by (induction docs arbitrary: acc) (auto simp: set_fold_Set_add)

lemma distinct_vocabSet_fold:
  "distinct acc \<Longrightarrow> distinct (fold (\<lambda>doc vs. fold Set_add (preprocessText env doc) vs) docs acc)"
  by (induction docs arbitrary: acc) (simp_all add: distinct_fold_Set_add)

lemma set_vocabSet: "set (vocabSet env docs) = (\<Union>doc\<in>set docs. set (preprocessText env doc))"
  by (simp add: vocabSet_def set_vocabSet_fold)

lemma distinct_vocabSet: "distinct (vocabSet env docs)"
  by (simp add: vocabSet_def distinct_vocabSet_fold)

lemma in_vocabSet_df: "t \<in> set (vocabSet env docs) \<longleftrightarrow> 0 < df env docs t"
  by (auto simp: set_vocabSet df_def filter_empty_conv)

lemma assign_indices_Cons:
  "assign_indices (u # us) (voc, k) = assign_indices us (Map_set u k voc, Suc k)"
  by (simp add: assign_indices_def)

lemma assign_indices_Nil: "assign_indices [] p = p"
  by (simp add: assign_indices_def)

lemma keys_assign_indices:
  "fst ` set (fst (assign_indices us (voc, k))) = fst ` set voc \<union> set us"
  by (induction us arbitrary: voc k)
     (auto simp: assign_indices_Cons assign_indices_Nil Map_set_def dom_update)

lemma snd_assign_indices: "snd (assign_indices us (voc, k)) = k + length us"
  by (induction us arbitrary: voc k) (simp_all add: assign_indices_Cons assign_indices_Nil)

lemma assign_indices_other:
  "t \<notin> set us \<Longrightarrow> map_of (fst (assign_indices us (voc, k))) t = map_of voc t"
  by (induction us arbitrary: voc k)
     (simp_all add: assign_indices_Cons assign_indices_Nil Map_set_def update_conv')

lemma assign_indices_lookup:
  "distinct us \<Longrightarrow> j < length us \<Longrightarrow>
   map_of (fst (assign_indices us (voc, k))) (us ! j) = Some (k + j)"
proof (induction us arbitrary: voc k j)
  case Nil
  then show ?case by simp
next
  case (Cons u us)
  show ?case
  proof (cases j)
    case 0
    with Cons.prems show ?thesis
      by (simp add: assign_indices_Cons assign_indices_other Map_set_def update_conv')
  next
    case (Suc j')
    with Cons.prems Cons.IH[of j' "Map_set u k voc" "Suc k"] show ?thesis
      by (simp add: assign_indices_Cons)
  qed
qed

lemma assign_indices_fixed:
  "(\<And>j. j < length us \<Longrightarrow> map_of voc (us ! j) = Some (k + j)) \<Longrightarrow>
   assign_indices us (voc, k) = (voc, k + length us)"
proof (induction us arbitrary: k)
  case Nil
  show ?case by (simp add: assign_indices_Nil)
next
  case (Cons u us)
  from Cons.prems[of 0] have "Map_set u k voc = voc"
    by (simp add: Map_set_def update_triv)
  moreover have "assign_indices us (voc, Suc k) = (voc, Suc k + length us)"
  proof (rule Cons.IH)
    fix j assume "j < length us"
    with Cons.prems[of "Suc j"] show "map_of voc (us ! j) = Some (Suc k + j)" by simp
  qed
  ultimately show ?case by (simp add: assign_indices_Cons)
qed

lemma assign_indices_idem:
  assumes "distinct us"
  shows "fst (assign_indices us (fst (assign_indices us (voc, 0)), 0)) = fst (assign_indices us (voc, 0))"
proof -
  have "assign_indices us (fst (assign_indices us (voc, 0)), 0)
          = (fst (assign_indices us (voc, 0)), 0 + length us)"
    by (rule assign_indices_fixed) (simp add: assign_indices_lookup[OF assms])
  then show ?thesis by simp
qed

lemma assign_indices_fresh:
  "distinct us \<Longrightarrow> set us \<inter> fst ` set voc = {} \<Longrightarrow>
   assign_indices us (voc, k) = (voc @ zip us [k..<k + length us], k + length us)"
proof (induction us arbitrary: voc k)
  case Nil
  show ?case by (simp add: assign_indices_Nil)
next
  case (Cons u us)
  from Cons.prems have "u \<notin> fst ` set voc" by auto
  then have upd: "Map_set u k voc = voc @ [(u, k)]"
    unfolding Map_set_def by (induction voc) auto
  from Cons.prems have "set us \<inter> fst ` set (voc @ [(u, k)]) = {}" by auto
  with Cons.prems Cons.IH[of "voc @ [(u, k)]" "Suc k"]
  have "assign_indices us (voc @ [(u, k)], Suc k)
          = ((voc @ [(u, k)]) @ zip us [Suc k..<Suc k + length us], Suc k + length us)"
    by simp
  moreover have "[k..<k + length (u # us)] = k # [Suc k..<Suc k + length us]"
    using upt_conv_Cons[of k "k + length (u # us)"] by (simp del: upt_Suc)
  ultimately show ?case
    by (simp add: assign_indices_Cons upd del: upt_Suc)
qed

lemma Map_set_if: "(if c then Map_set k x m else Map_set k y m) = Map_set k (if c then x else y) m"
  by simp

lemma calculateIDF_alt:
  "calculateIDF env docs this =
     this\<lparr>idf := set_weights (idf_weight env docs) (vocabulary this) (idf this)\<rparr>"
  unfolding calculateIDF_def set_weights_def idf_weight_def Let_def termDocCount_df Map_set_if
  by simp

lemma set_weights_Cons:
  "set_weights w ((t, i) # voc) m = set_weights w voc (Map_set t (w t) m)"
  by (simp add: set_weights_def)

lemma set_weights_Nil: "set_weights w [] m = m"
  by (simp add: set_weights_def)

lemma set_weights_lookup:
  "map_of (set_weights w voc m) t = (if t \<in> fst ` set voc then Some (w t) else map_of m t)"
proof (induction voc arbitrary: m)
  case Nil
  show ?case by (simp add: set_weights_Nil)
next
  case (Cons e voc)
  obtain u i where e: "e = (u, i)" by (cases e)
  show ?case
    by (simp add: e set_weights_Cons Cons.IH Map_set_def update_conv')
qed

lemma set_weights_fixed:
  "(\<And>t. t \<in> fst ` set voc \<Longrightarrow> map_of m t = Some (w t)) \<Longrightarrow> set_weights w voc m = m"
proof (induction voc)
  case Nil
  show ?case by (simp add: set_weights_Nil)
next
  case (Cons e voc)
  obtain u i where e: "e = (u, i)" by (cases e)
  from Cons.prems[of u] have "Map_set u (w u) m = m"
    by (simp add: e Map_set_def update_triv)
  moreover have "set_weights w voc m = m"
    by (rule Cons.IH) (simp add: Cons.prems)
  ultimately show ?case by (simp add: e set_weights_Cons)
qed

lemma set_weights_idem: "set_weights w voc (set_weights w voc m) = set_weights w voc m"
  by (rule set_weights_fixed) (simp add: set_weights_lookup)

lemma fit_alt:
  "fit env docs this =
     this\<lparr>vocabulary := fst (assign_indices (vocabSet env docs) (vocabulary this, 0)),
          idf := set_weights (idf_weight env docs)
                   (fst (assign_indices (vocabSet env docs) (vocabulary this, 0))) (idf this),
          documents := docs,
          fitted := True\<rparr>"
  by (simp add: fit_def calculateIDF_alt buildVocabulary_alt)

lemma keys_vocabulary_fit:
  "fst ` set (vocabulary (fit env docs this))
     = fst ` set (vocabulary this) \<union> (\<Union>doc\<in>set docs. set (preprocessText env doc))"
  by (simp add: fit_alt keys_assign_indices set_vocabSet)

lemma df_le: "df env docs t \<le> length docs"
  by (simp add: df_def)

lemma idf_weight_nonneg: "0 \<le> idf_weight env docs t"
proof (cases "0 < df env docs t")
  case True
  with df_le[of env docs t] have "1 \<le> real (length docs) / real (df env docs t)"
    by (simp add: le_divide_eq)
  with True show ?thesis by (simp add: idf_weight_def)
next
  case False
  then show ?thesis by (simp add: idf_weight_def)
qed

lemma Map_inv_assign_indices: "Map_inv voc \<Longrightarrow> Map_inv (fst (assign_indices us (voc, k)))"
  by (induction us arbitrary: voc k) (simp_all add: assign_indices_Cons assign_indices_Nil Map_inv_Map_set)

lemma Map_inv_set_weights: "Map_inv m \<Longrightarrow> Map_inv (set_weights w voc m)"
  by (induction voc arbitrary: m) (auto simp: set_weights_Cons set_weights_Nil Map_inv_Map_set)

lemma Map_inv_fit:
  "Map_inv (vocabulary this) \<Longrightarrow> Map_inv (idf this) \<Longrightarrow>
   Map_inv (vocabulary (fit env docs this)) \<and> Map_inv (idf (fit env docs this))"
  by (simp add: fit_alt Map_inv_assign_indices Map_inv_set_weights)

lemma Map_inv_new: "Map_inv (vocabulary new_TFIDFVectorizer) \<and> Map_inv (idf new_TFIDFVectorizer)"
  by (simp add: new_TFIDFVectorizer_def Map_inv_def)

text \<open>
  C4.  After \<open>fit\<close> on a collection of \<open>docCount\<close> documents, the weight of every term
  of the vocabulary is \<open>ln (docCount / df)\<close>, where \<open>df\<close> is the number of documents in
  which the term survives preprocessing, or \<open>0\<close> when \<open>df\<close> is \<open>0\<close>.  Every weight
  is non-negative, a term of every document has weight \<open>0\<close>, and on a new vectorizer
  every vocabulary term has \<open>df \<ge> 1\<close>.
\<close>

theorem fit_idf:
  assumes "t \<in> fst ` set (vocabulary (fit env docs this))"
  shows "Map_get (idf (fit env docs this)) t
           = Some (if 0 < df env docs t then ln (real (length docs) / real (df env docs t)) else 0)
       \<and> (\<forall>w. Map_get (idf (fit env docs this)) t = Some w \<longrightarrow> 0 \<le> w)
       \<and> (df env docs t = length docs \<longrightarrow> Map_get (idf (fit env docs this)) t = Some 0)
       \<and> (this = new_TFIDFVectorizer \<longrightarrow> 1 \<le> df env docs t)"
proof -
  have voc: "vocabulary (fit env docs this) = fst (assign_indices (vocabSet env docs) (vocabulary this, 0))"
    by (simp add: fit_alt)
  have "Map_get (idf (fit env docs this)) t = Some (idf_weight env docs t)"
    using assms unfolding voc by (simp add: fit_alt Map_get_def set_weights_lookup)
  then have look: "Map_get (idf (fit env docs this)) t
           = Some (if 0 < df env docs t then ln (real (length docs) / real (df env docs t)) else 0)"
    by (simp add: idf_weight_def)
  have nonneg: "\<forall>w. Map_get (idf (fit env docs this)) t = Some w \<longrightarrow> 0 \<le> w"
    using idf_weight_nonneg[of env docs t] look by (simp add: idf_weight_def)
  have all: "df env docs t = length docs \<longrightarrow> Map_get (idf (fit env docs this)) t = Some 0"
    using look by simp
  have fresh: "this = new_TFIDFVectorizer \<longrightarrow> 1 \<le> df env docs t"
  proof
    assume "this = new_TFIDFVectorizer"
    with assms have "t \<in> set (vocabSet env docs)"
      by (simp add: keys_vocabulary_fit set_vocabSet new_TFIDFVectorizer_def)
    then show "1 \<le> df env docs t" by (simp add: in_vocabSet_df)
  qed
  from look nonneg all fresh show ?thesis by blast
qed

theorem fit_idf_witness:
  "Map_get (idf (fit sample_nlp [JString ''binary search'', JString ''Binary Tree''] new_TFIDFVectorizer)) ''search''
     = Some (ln 2)
   \<and> Map_get (idf (fit sample_nlp [JString ''binary search'', JString ''Binary Tree''] new_TFIDFVectorizer)) ''binary''
     = Some 0"
proof -
  let ?D = "[JString ''binary search'', JString ''Binary Tree'']"
  have p0: "preprocessText sample_nlp (JString ''binary search'') = [''binary'', ''search'']"
    by code_simp
  have p1: "preprocessText sample_nlp (JString ''Binary Tree'') = [''binary'', ''tree'']"
    by code_simp
  have d1: "df sample_nlp ?D ''search'' = 1" by (simp add: df_def p0 p1)
  have d2: "df sample_nlp ?D ''binary'' = 2" by (simp add: df_def p0 p1)
  have m1: "''search'' \<in> fst ` set (vocabulary (fit sample_nlp ?D new_TFIDFVectorizer))"
    by (simp add: keys_vocabulary_fit p0 p1)
  have m2: "''binary'' \<in> fst ` set (vocabulary (fit sample_nlp ?D new_TFIDFVectorizer))"
    by (simp add: keys_vocabulary_fit p0 p1)
  show ?thesis
    using fit_idf[OF m1] fit_idf[OF m2] by (simp add: d1 d2)
qed

text \<open>
  C7.  \<open>fit\<close> is a function of the documents, the tokenizer and the stop words.  Running
  it a second time on the same vectorizer with the same documents changes nothing, so
  the vectors of \<open>transform\<close> are the same; on a new vectorizer the indices are the
  positions of the terms in order of first occurrence.
\<close>

theorem fit_deterministic:
  "fit env docs (fit env docs this) = fit env docs this
   \<and> transform env (fit env docs (fit env docs this)) ds = transform env (fit env docs this) ds
   \<and> vocabulary (fit env docs new_TFIDFVectorizer)
       = zip (vocabSet env docs) [0..<length (vocabSet env docs)]"
proof -
  let ?U = "vocabSet env docs"
  let ?V = "fst (assign_indices ?U (vocabulary this, 0))"
  have V: "fst (assign_indices ?U (?V, 0)) = ?V"
    by (rule assign_indices_idem) (rule distinct_vocabSet)
  have idem: "fit env docs (fit env docs this) = fit env docs this"
    by (simp add: fit_alt V set_weights_idem)
  have "assign_indices ?U ([], 0) = ([] @ zip ?U [0..<0 + length ?U], 0 + length ?U)"
    by (rule assign_indices_fresh) (simp_all add: distinct_vocabSet)
  then have "vocabulary (fit env docs new_TFIDFVectorizer) = zip ?U [0..<length ?U]"
    by (simp add: fit_alt new_TFIDFVectorizer_def)
  with idem show ?thesis by simp
qed

lemma fit_indices_below_size:
  assumes "(t, i) \<in> set (vocabulary (fit env docs new_TFIDFVectorizer))"
  shows "i < length (vocabulary (fit env docs new_TFIDFVectorizer))"
proof -
  let ?U = "vocabSet env docs"
  have "assign_indices ?U ([], 0) = ([] @ zip ?U [0..<0 + length ?U], 0 + length ?U)"
    by (rule assign_indices_fresh) (simp_all add: distinct_vocabSet)
  then have eq: "vocabulary (fit env docs new_TFIDFVectorizer) = zip ?U [0..<length ?U]"
    by (simp add: fit_alt new_TFIDFVectorizer_def)
  from assms have "i \<in> set [0..<length ?U]"
    unfolding eq by (rule set_zip_rightD)
  then show ?thesis by (simp add: eq)
qed

section \<open>Vectors of documents\<close>

lemma calculateTF_Nil: "calculateTF [] = []"
  by (simp add: calculateTF_def)

text \<open>
  C8.  A document from which preprocessing keeps no token is mapped to the vector of
  zeros whose length is the size of the vocabulary: the term-frequency table is empty,
  so the division by the token count is never evaluated.
\<close>

theorem documentToVector_no_tokens:
  assumes "preprocessText env doc = []"
  shows "documentToVector env this doc = replicate (length (vocabulary this)) 0"
  using assms by (simp add: documentToVector_def calculateTF_Nil)

theorem documentToVector_no_tokens_witness:
  "documentToVector sample_nlp
       \<lparr>vocabulary = [(''binary'', 0), (''search'', 1)], idf = [(''binary'', 0), (''search'', ln 2)],
        documents = [], fitted = True\<rparr>
       (JString ''The 42 of a ... 7!'') = [0, 0]"
proof -
  have "preprocessText sample_nlp (JString ''The 42 of a ... 7!'') = []" by code_simp
  from documentToVector_no_tokens[OF this] show ?thesis by (simp add: numeral_2_eq_2)
qed

section \<open>Serialization\<close>

text \<open>
  C9.  \<open>deserialize (serialize v)\<close> has the vocabulary, the weights and the fitted flag
  of \<open>v\<close>.  The hypotheses say that the two maps of \<open>v\<close> are maps: their keys are
  distinct, as \<open>Map_inv_new\<close>, \<open>Map_inv_fit\<close> and \<open>Map_inv_new_Map\<close> maintain.
\<close>

theorem deserialize_serialize:
  assumes "Map_inv (vocabulary v)" "Map_inv (idf v)"
  shows "vocabulary (deserialize (serialize v)) = vocabulary v
       \<and> idf (deserialize (serialize v)) = idf v
       \<and> fitted (deserialize (serialize v)) = fitted v"
  using assms by (simp add: deserialize_def serialize_def new_Map_id new_TFIDFVectorizer_def)

theorem deserialize_serialize_witness:
  "vocabulary (deserialize (serialize
       \<lparr>vocabulary = [(''binary'', 0), (''search'', 1)], idf = [(''binary'', 0), (''search'', ln 2)],
        documents = [JString ''binary search''], fitted = True\<rparr>))
     = [(''binary'', 0), (''search'', 1)]
   \<and> idf (deserialize (serialize
       \<lparr>vocabulary = [(''binary'', 0), (''search'', 1)], idf = [(''binary'', 0), (''search'', ln 2)],
        documents = [JString ''binary search''], fitted = True\<rparr>))
     = [(''binary'', 0), (''search'', ln 2)]
   \<and> fitted (deserialize (serialize
       \<lparr>vocabulary = [(''binary'', 0), (''search'', 1)], idf = [(''binary'', 0), (''search'', ln 2)],
        documents = [JString ''binary search''], fitted = True\<rparr>))"
  using deserialize_serialize[of
       "\<lparr>vocabulary = [(''binary'', 0), (''search'', 1)], idf = [(''binary'', 0), (''search'', ln 2)],
        documents = [JString ''binary search''], fitted = True\<rparr>"]
  by (simp add: Map_inv_def)

section \<open>The fallback search\<close>
































section \<open>Errors at the boundary of query\<close>

lemma transform_unfitted:
  "\<not> fitted vec \<Longrightarrow> transform env vec docs = Inl (Error ''Vectorizer must be fitted before transform'')"
  by (simp add: transform_def)

text \<open>
  C6.  \<open>query\<close> returns a list on every input; every throw of its body is a value
  \<open>Inl e\<close> here and is turned into the empty list.  The list is empty when the query is
  not a string or is the empty string, when the lazy initialization fails, and when the
  statements after it throw.  The module object is the one the initialization left.
\<close>

theorem query_never_raises:
  "(((\<forall>s. queryText \<noteq> JString s) \<or> queryText = JString []) \<longrightarrow>
      fst (query env files this queryText threshold_arg) = [])
   \<and> (fst (lazy_initialize files this) \<noteq> None \<longrightarrow>
      fst (query env files this queryText threshold_arg) = [])
   \<and> ((\<exists>e. query_body env (snd (lazy_initialize files this)) queryText
              (default_threshold threshold_arg) = Inl e) \<longrightarrow>
      fst (query env files this queryText threshold_arg) = [])
   \<and> snd (query env files this queryText threshold_arg) = snd (lazy_initialize files this)"
proof -
  obtain err this' where li: "lazy_initialize files this = (err, this')"
    by (cases "lazy_initialize files this")
  have a: "fst (query env files this queryText threshold_arg) = []"
    if "(\<forall>s. queryText \<noteq> JString s) \<or> queryText = JString []"
  proof -
    from that have "query_body env this' queryText (default_threshold threshold_arg) = Inr []"
      by (cases queryText) (auto simp: query_body_def)
    then show ?thesis by (cases err) (simp_all add: query_def li)
  qed
  have b: "fst (query env files this queryText threshold_arg) = []"
    if "fst (lazy_initialize files this) \<noteq> None"
    using that by (cases err) (simp_all add: query_def li)
  have c: "fst (query env files this queryText threshold_arg) = []"
    if "\<exists>e. query_body env (snd (lazy_initialize files this)) queryText
              (default_threshold threshold_arg) = Inl e"
    using that by (cases err) (auto simp: query_def li)
  have d: "snd (query env files this queryText threshold_arg) = snd (lazy_initialize files this)"
    by (cases err) (simp_all add: query_def li split: sum.splits)
  from a b c d show ?thesis by blast
qed

theorem query_never_raises_witness:
  "fst (query sample_nlp
          \<lparr>checkPlatformData = Inr (True, True, True),
           loadPlatformData = Inr (new_TFIDFVectorizer, [[0]]),
           readProblemData = Inr ([''abc''], [''u''])\<rparr>
          new_CodeforceModule (JNumber 3) None) = []
   \<and> fst (query sample_nlp
          \<lparr>checkPlatformData = Inr (True, False, True),
           loadPlatformData = Inl (Error ''Matrix file not found''),
           readProblemData = Inr ([''abc''], [''u''])\<rparr>
          new_CodeforceModule (JString ''binary'') None) = []
   \<and> fst (query sample_nlp
          \<lparr>checkPlatformData = Inr (True, True, True),
           loadPlatformData = Inr (new_TFIDFVectorizer, [[1, 0], [0, 1]]),
           readProblemData = Inr ([''abc'', ''def''], [''u'', ''v''])\<rparr>
          new_CodeforceModule (JString ''binary'') None) = []"
proof -
  let ?f1 = "\<lparr>checkPlatformData = Inr (True, True, True),
           loadPlatformData = Inr (new_TFIDFVectorizer, [[0]]),
           readProblemData = Inr ([''abc''], [''u''])\<rparr>"
  let ?f2 = "\<lparr>checkPlatformData = Inr (True, False, True),
           loadPlatformData = Inl (Error ''Matrix file not found''),
           readProblemData = Inr ([''abc''], [''u''])\<rparr>"
  let ?f3 = "\<lparr>checkPlatformData = Inr (True, True, True),
           loadPlatformData = Inr (new_TFIDFVectorizer, [[1, 0], [0, 1]]),
           readProblemData = Inr ([''abc'', ''def''], [''u'', ''v''])\<rparr>"
  have h1: "(\<forall>s. JNumber 3 \<noteq> JString s) \<or> JNumber 3 = JString []" by simp
  have h2: "fst (lazy_initialize ?f2 new_CodeforceModule) \<noteq> None"
    by (simp add: lazy_initialize_def initialize_def new_CodeforceModule_def)
  have h3: "\<exists>e. query_body sample_nlp (snd (lazy_initialize ?f3 new_CodeforceModule))
                  (JString ''binary'') (default_threshold None) = Inl e"
    by (simp add: lazy_initialize_def initialize_def new_CodeforceModule_def query_body_def
                  rows_def columns_def transform_unfitted new_TFIDFVectorizer_def)
  show ?thesis
    using query_never_raises[of "JNumber 3" sample_nlp ?f1 new_CodeforceModule None]
          query_never_raises[of "JString ''binary''" sample_nlp ?f2 new_CodeforceModule None]
          query_never_raises[of "JString ''binary''" sample_nlp ?f3 new_CodeforceModule None]
          h1 h2 h3
    by blast
qed

end
